theory Spec2Isabelle
  imports Main "HOL-Library.Word"
begin

section \<open>Go values\<close>

text \<open>
  Go's \<open>int\<close> is taken at its 64-bit width: a \<open>64 word\<close> read as two's complement
  by \<open>sint\<close>, so \<open>+\<close> and \<open>*\<close> wrap around as they do in the program and the
  comparisons of the source are the signed ones (\<open><s\<close>, \<open>\<le>s\<close>). \<open>uint32\<close>, \<open>int32\<close>
  and \<open>uint8\<close> are words of their width. A slice is the list of its elements; every
  slice of the program is made with \<open>make\<close> or passed in whole, so its capacity is
  its length.
\<close>

type_synonym goint = "64 word"
type_synonym int32 = "32 word"
type_synonym uint32 = "32 word"
type_synonym uint8 = "8 word"

text \<open>The conversion \<open>int32(x)\<close> of an \<open>int\<close> keeps the low 32 bits.\<close>

definition to_int32 :: "goint \<Rightarrow> int32" where
  "to_int32 x = ucast x"

text \<open>A panic is a value: the message of an explicit \<open>panic\<close>, or the runtime's error.\<close>

datatype panic =
    PanicMsg string
  | SliceBoundsOutOfRange
  | MakesliceLenOutOfRange

text \<open>
  \<open>make([]uint8, n)\<close>: \<open>n\<close> zero bytes. The runtime's \<open>makeslice\<close> panics on a negative
  length and on one beyond its allocation limit \<open>maxAlloc\<close>, which is \<open>1 << 48\<close> bytes
  where \<open>int\<close> has 64 bits and heap addresses 48. (Below that limit memory is not
  bounded here: running out of it is not a panic but the end of the process.)
\<close>

definition maxAlloc :: goint where
  "maxAlloc = 0x1000000000000"

definition make_bytes :: "goint \<Rightarrow> panic + uint8 list" where
  "make_bytes n =
     (if n <s 0 \<or> maxAlloc <s n then Inl MakesliceLenOutOfRange
      else Inr (replicate (nat (sint n)) 0))"

text \<open>
  \<open>gl.Ptr(data)\<close> for a slice is the address of its first element, taken through
  \<open>reflect\<close> as \<open>v.Index(0)\<close>: on an empty or nil slice that index is out of range and
  \<open>reflect\<close> panics. The pointer to a non-empty slice stands for the slice.
\<close>

definition Ptr :: "'a list \<Rightarrow> panic + 'a list" where
  "Ptr data =
     (if data = [] then Inl (PanicMsg ''reflect: slice index out of range'') else Inr data)"

text \<open>
  The slice expression \<open>xs[lo:hi]\<close>: the runtime checks \<open>0 \<le> lo \<le> hi \<le> cap(xs)\<close>
  and panics otherwise.
\<close>

definition slice_ok :: "'a list \<Rightarrow> goint \<Rightarrow> goint \<Rightarrow> bool" where
  "slice_ok xs lo hi \<longleftrightarrow> 0 \<le>s lo \<and> lo \<le>s hi \<and> sint hi \<le> int (length xs)"

definition slice :: "'a list \<Rightarrow> goint \<Rightarrow> goint \<Rightarrow> panic + 'a list" where
  "slice xs lo hi =
     (if slice_ok xs lo hi
      then Inr (take (nat (sint hi) - nat (sint lo)) (drop (nat (sint lo)) xs))
      else Inl SliceBoundsOutOfRange)"

text \<open>
  \<open>copy(dst, src)\<close> where \<open>dst\<close> is the window \<open>xs[lo:hi]\<close> of \<open>xs\<close>: the first
  \<open>min(len(dst), len(src))\<close> elements of \<open>src\<close> overwrite \<open>xs\<close> from index \<open>lo\<close>
  on; the rest of \<open>xs\<close> stays.
\<close>

definition copy_into :: "'a list \<Rightarrow> goint \<Rightarrow> goint \<Rightarrow> 'a list \<Rightarrow> 'a list" where
  "copy_into xs lo hi src =
     (let n = min (nat (sint hi) - nat (sint lo)) (length src)
      in take (nat (sint lo)) xs @ take n src @ drop (nat (sint lo) + n) xs)"

section \<open>The graphics driver\<close>

text \<open>
  The constants of the OpenGL 3.3 core binding that the texture code names.
\<close>

definition TEXTURE_2D :: uint32 where "TEXTURE_2D = 0x0DE1"
definition TEXTURE_BINDING_2D :: uint32 where "TEXTURE_BINDING_2D = 0x8069"
definition TEXTURE_BORDER_COLOR :: uint32 where "TEXTURE_BORDER_COLOR = 0x1004"
definition TEXTURE_MAG_FILTER :: uint32 where "TEXTURE_MAG_FILTER = 0x2800"
definition TEXTURE_MIN_FILTER :: uint32 where "TEXTURE_MIN_FILTER = 0x2801"
definition TEXTURE_WRAP_S :: uint32 where "TEXTURE_WRAP_S = 0x2802"
definition TEXTURE_WRAP_T :: uint32 where "TEXTURE_WRAP_T = 0x2803"
definition RGBA :: uint32 where "RGBA = 0x1908"
definition RGBA8 :: uint32 where "RGBA8 = 0x8058"
definition UNSIGNED_BYTE :: uint32 where "UNSIGNED_BYTE = 0x1401"
definition NEAREST :: int32 where "NEAREST = 0x2600"
definition LINEAR :: int32 where "LINEAR = 0x2601"
definition NEAREST_MIPMAP_NEAREST :: int32 where "NEAREST_MIPMAP_NEAREST = 0x2700"
definition LINEAR_MIPMAP_NEAREST :: int32 where "LINEAR_MIPMAP_NEAREST = 0x2701"
definition NEAREST_MIPMAP_LINEAR :: int32 where "NEAREST_MIPMAP_LINEAR = 0x2702"
definition LINEAR_MIPMAP_LINEAR :: int32 where "LINEAR_MIPMAP_LINEAR = 0x2703"

text \<open>\<open>type Wrap int32\<close> and its three constants.\<close>

type_synonym Wrap = int32

definition CLAMP_TO_EDGE :: Wrap where "CLAMP_TO_EDGE = 0x812F"
definition CLAMP_TO_BORDER :: Wrap where "CLAMP_TO_BORDER = 0x812D"
definition REPEAT :: Wrap where "REPEAT = 0x2901"

lemmas gl_consts =
  TEXTURE_2D_def TEXTURE_BINDING_2D_def TEXTURE_BORDER_COLOR_def TEXTURE_MAG_FILTER_def
  TEXTURE_MIN_FILTER_def TEXTURE_WRAP_S_def TEXTURE_WRAP_T_def RGBA_def RGBA8_def
  UNSIGNED_BYTE_def NEAREST_def LINEAR_def NEAREST_MIPMAP_NEAREST_def
  LINEAR_MIPMAP_NEAREST_def NEAREST_MIPMAP_LINEAR_def LINEAR_MIPMAP_LINEAR_def
  CLAMP_TO_EDGE_def CLAMP_TO_BORDER_def REPEAT_def

text \<open>
  Every call that leaves the texture code, with its arguments in the order of the
  binding (a buffer passed through \<open>gl.Ptr\<close> is recorded as its bytes). The trace of
  these calls is what the code does to the driver and the runtime.
\<close>

datatype call =
    CallGenTextures uint32
  | CallBindTexture uint32 uint32
  | CallTexStorage2D uint32 int32 uint32 int32 int32
  | CallTexSubImage2D uint32 int32 int32 int32 int32 int32 uint32 uint32 "uint8 list"
  | CallTexImage2D uint32 int32 int32 int32 int32 int32 uint32 uint32 "uint8 list"
  | CallGenerateMipmap uint32
  | CallTexParameterfv uint32 uint32 "int list"
  | CallTexParameteri uint32 uint32 int32
  | CallGetTexImage uint32 int32 uint32 uint32
  | CallSetFinalizer uint32

text \<open>
  The state of the context: \<open>slots\<close> holds the integer state that \<open>GetIntegerv\<close>
  reads (the 2D-texture binding slot is \<open>slots s TEXTURE_BINDING_2D\<close>), \<open>params\<close>
  the integer sampler parameters of each texture name, \<open>next_name\<close> the name the driver
  hands out next, \<open>readback\<close> the bytes the driver delivers when level 0 of the bound
  texture is read back, and \<open>calls\<close> the trace so far.
\<close>

record gl_state =
  slots :: "uint32 \<Rightarrow> uint32"
  params :: "uint32 \<times> uint32 \<Rightarrow> int32 option"
  next_name :: uint32
  readback :: "uint8 list"
  calls :: "call list"

definition emit :: "call \<Rightarrow> gl_state \<Rightarrow> gl_state" where
  "emit c s = s\<lparr>calls := calls s @ [c]\<rparr>"

definition GetIntegerv :: "uint32 \<Rightarrow> gl_state \<Rightarrow> uint32" where
  "GetIntegerv pname s = slots s pname"

definition GenTextures :: "gl_state \<Rightarrow> uint32 \<times> gl_state" where
  "GenTextures s =
     (next_name s, emit (CallGenTextures (next_name s)) (s\<lparr>next_name := next_name s + 1\<rparr>))"

definition BindTexture :: "uint32 \<Rightarrow> uint32 \<Rightarrow> gl_state \<Rightarrow> gl_state" where
  "BindTexture target texture s =
     emit (CallBindTexture target texture)
       (if target = TEXTURE_2D then s\<lparr>slots := (slots s)(TEXTURE_BINDING_2D := texture)\<rparr>
        else s)"

definition TexParameteri :: "uint32 \<Rightarrow> uint32 \<Rightarrow> int32 \<Rightarrow> gl_state \<Rightarrow> gl_state" where
  "TexParameteri target pname param s =
     emit (CallTexParameteri target pname param)
       (if target = TEXTURE_2D
        then s\<lparr>params := (params s)((slots s TEXTURE_BINDING_2D, pname) \<mapsto> param)\<rparr>
        else s)"

definition TexParameterfv :: "uint32 \<Rightarrow> uint32 \<Rightarrow> int list \<Rightarrow> gl_state \<Rightarrow> gl_state" where
  "TexParameterfv target pname vs s = emit (CallTexParameterfv target pname vs) s"

definition TexStorage2D ::
  "uint32 \<Rightarrow> int32 \<Rightarrow> uint32 \<Rightarrow> int32 \<Rightarrow> int32 \<Rightarrow> gl_state \<Rightarrow> gl_state" where
  "TexStorage2D target levels internalformat w h s =
     emit (CallTexStorage2D target levels internalformat w h) s"

definition TexSubImage2D ::
  "uint32 \<Rightarrow> int32 \<Rightarrow> int32 \<Rightarrow> int32 \<Rightarrow> int32 \<Rightarrow> int32 \<Rightarrow> uint32 \<Rightarrow> uint32 \<Rightarrow> uint8 list
     \<Rightarrow> gl_state \<Rightarrow> gl_state" where
  "TexSubImage2D target level xoffset yoffset w h format xtype pixels s =
     emit (CallTexSubImage2D target level xoffset yoffset w h format xtype pixels) s"

definition TexImage2D ::
  "uint32 \<Rightarrow> int32 \<Rightarrow> int32 \<Rightarrow> int32 \<Rightarrow> int32 \<Rightarrow> int32 \<Rightarrow> uint32 \<Rightarrow> uint32 \<Rightarrow> uint8 list
     \<Rightarrow> gl_state \<Rightarrow> gl_state" where
  "TexImage2D target level internalformat w h border format xtype pixels s =
     emit (CallTexImage2D target level internalformat w h border format xtype pixels) s"

definition GenerateMipmap :: "uint32 \<Rightarrow> gl_state \<Rightarrow> gl_state" where
  "GenerateMipmap target s = emit (CallGenerateMipmap target) s"

text \<open>
  \<open>GetTexImage\<close> writes the image through the pointer it is given: the bytes of
  \<open>readback s\<close> replace the buffer from its start, and the buffer keeps its length.
\<close>

definition GetTexImage ::
  "uint32 \<Rightarrow> int32 \<Rightarrow> uint32 \<Rightarrow> uint32 \<Rightarrow> uint8 list \<Rightarrow> gl_state \<Rightarrow> uint8 list \<times> gl_state" where
  "GetTexImage target level format xtype buf s =
     (take (length buf) (readback s) @ drop (length (readback s)) buf,
      emit (CallGetTexImage target level format xtype) s)"

text \<open>\<open>runtime.SetFinalizer(tex, (*Texture).delete)\<close>, recorded with the texture's name.\<close>

definition SetFinalizer :: "uint32 \<Rightarrow> gl_state \<Rightarrow> gl_state" where
  "SetFinalizer name s = emit (CallSetFinalizer name) s"

section \<open>Binding and restoring\<close>

text \<open>
  Modelled from the spec: the struct type of the field \<open>tex\<close> (here \<open>Binder\<close>) and
  its methods \<open>bind\<close> and \<open>restore\<close> are not in \<open>texture.go\<close>, which only fills
  the fields \<open>restoreLoc\<close>, \<open>bindFunc\<close> and \<open>obj\<close> and calls the two methods. The spec: Begin "binds this resource's native
  handle into its target's binding slot, first recording whatever handle was previously
  bound there (so it can be restored)", and End "restores the previously recorded handle
  into the slot". The recorded handles are kept as a stack in \<open>prev\<close>, newest first, so
  that each End matches the latest Begin that is still open; a \<open>restore\<close> with nothing
  recorded, which the spec leaves undefined, changes nothing.
\<close>

record Binder =
  restoreLoc :: uint32
  bindFunc :: "uint32 \<Rightarrow> gl_state \<Rightarrow> gl_state"
  obj :: uint32
  prev :: "uint32 list"

text \<open>
  Modelled from the spec: the method \<open>bind\<close>, missing from the source. It records the
  handle that \<open>GetIntegerv(restoreLoc)\<close> finds in the slot, then binds \<open>obj\<close>.
\<close>

definition bind :: "Binder \<Rightarrow> gl_state \<Rightarrow> Binder \<times> gl_state" where
  "bind b s =
     (let p = GetIntegerv (restoreLoc b) s
      in (b\<lparr>prev := p # prev b\<rparr>, bindFunc b (obj b) s))"

text \<open>
  Modelled from the spec: the method \<open>restore\<close>, missing from the source. It binds the
  handle recorded last and forgets it.
\<close>

definition restore :: "Binder \<Rightarrow> gl_state \<Rightarrow> Binder \<times> gl_state" where
  "restore b s =
     (case prev b of
        [] \<Rightarrow> (b, s)
      | p # ps \<Rightarrow> (b\<lparr>prev := ps\<rparr>, bindFunc b p s))"

section \<open>Texture\<close>

record Texture =
  tex :: Binder
  width :: goint
  height :: goint
  mipmapLevels :: goint
  smooth :: bool

definition Begin :: "Texture \<Rightarrow> gl_state \<Rightarrow> Texture \<times> gl_state" where
  "Begin t s = (let (b, s') = bind (tex t) s in (t\<lparr>tex := b\<rparr>, s'))"

definition End :: "Texture \<Rightarrow> gl_state \<Rightarrow> Texture \<times> gl_state" where
  "End t s = (let (b, s') = restore (tex t) s in (t\<lparr>tex := b\<rparr>, s'))"

definition SetSmooth :: "Texture \<Rightarrow> bool \<Rightarrow> gl_state \<Rightarrow> Texture \<times> gl_state" where
  "SetSmooth t sm s =
     (let t' = t\<lparr>smooth := sm\<rparr>
      in if sm
         then (let s1 = (if 0 <s mipmapLevels t'
                         then TexParameteri TEXTURE_2D TEXTURE_MIN_FILTER LINEAR_MIPMAP_LINEAR s
                         else TexParameteri TEXTURE_2D TEXTURE_MIN_FILTER LINEAR s)
               in (t', TexParameteri TEXTURE_2D TEXTURE_MAG_FILTER LINEAR s1))
         else (let s1 = (if 0 <s mipmapLevels t'
                         then TexParameteri TEXTURE_2D TEXTURE_MIN_FILTER LINEAR_MIPMAP_NEAREST s
                         else TexParameteri TEXTURE_2D TEXTURE_MIN_FILTER NEAREST s)
               in (t', TexParameteri TEXTURE_2D TEXTURE_MAG_FILTER NEAREST s1)))"

definition SetWrap :: "Texture \<Rightarrow> Wrap \<Rightarrow> gl_state \<Rightarrow> gl_state" where
  "SetWrap t wrap s =
     TexParameteri TEXTURE_2D TEXTURE_WRAP_T wrap
       (TexParameteri TEXTURE_2D TEXTURE_WRAP_S wrap s)"

text \<open>
  \<open>NewTexture\<close>. The arguments of each driver call are evaluated before the call, so a
  panic of \<open>gl.Ptr(pixels)\<close> leaves the upload unissued; with \<open>mipmapLevels > 0\<close> the
  storage has been allocated by then. The deferred \<open>tex.End()\<close> runs when the function
  returns and also when it panics: on the panicking path the binding is restored and no
  texture is returned. On the returning path it runs after the finalizer is set, and the
  caller, who holds the pointer \<open>tex\<close>, sees the texture as \<open>End\<close> leaves it.
\<close>

definition NewTexture ::
  "goint \<Rightarrow> goint \<Rightarrow> goint \<Rightarrow> bool \<Rightarrow> uint8 list \<Rightarrow> gl_state
     \<Rightarrow> (panic + Texture) \<times> gl_state" where
  "NewTexture w h levels sm pixels s =
     (let t0 = \<lparr>tex = \<lparr>restoreLoc = TEXTURE_BINDING_2D,
                       bindFunc = (\<lambda>ob. BindTexture TEXTURE_2D ob),
                       obj = 0, prev = []\<rparr>,
                width = w, height = h, mipmapLevels = levels, smooth = False\<rparr>;
          (name, s1) = GenTextures s;
          t1 = t0\<lparr>tex := (tex t0)\<lparr>obj := name\<rparr>\<rparr>;
          (t2, s2) = Begin t1 s1;
          (r, s3) =
            (if 0 <s levels
             then (let sa = TexStorage2D TEXTURE_2D (to_int32 levels) RGBA8
                              (to_int32 w) (to_int32 h) s2
                   in case Ptr pixels of
                        Inl e \<Rightarrow> (Inl e, sa)
                      | Inr p \<Rightarrow>
                          (Inr (),
                           GenerateMipmap TEXTURE_2D
                             (TexSubImage2D TEXTURE_2D 0 0 0 (to_int32 w) (to_int32 h)
                                RGBA UNSIGNED_BYTE p sa)))
             else (case Ptr pixels of
                     Inl e \<Rightarrow> (Inl e, s2)
                   | Inr p \<Rightarrow>
                       (Inr (),
                        TexImage2D TEXTURE_2D 0 (ucast RGBA) (to_int32 w) (to_int32 h) 0
                          RGBA UNSIGNED_BYTE p s2)))
      in case r of
           Inl e \<Rightarrow> (Inl e, snd (End t2 s3))
         | Inr u \<Rightarrow>
             (let s4 = TexParameterfv TEXTURE_2D TEXTURE_BORDER_COLOR [0, 0, 0, 0] s3;
                  (t3, s5) = SetSmooth t2 sm s4;
                  s6 = SetWrap t3 CLAMP_TO_BORDER s5;
                  s7 = SetFinalizer (obj (tex t3)) s6;
                  (t4, s8) = End t3 s7
              in (Inr t4, s8)))"

definition ID :: "Texture \<Rightarrow> uint32" where
  "ID t = obj (tex t)"

definition Width :: "Texture \<Rightarrow> goint" where
  "Width t = width t"

definition Height :: "Texture \<Rightarrow> goint" where
  "Height t = height t"

definition Smooth :: "Texture \<Rightarrow> bool" where
  "Smooth t = smooth t"

text \<open>
  \<open>SetPixels\<close>: the length test compares \<open>len(pixels)\<close>, an \<open>int\<close>, with the
  value of the Go expression \<open>w*h*4\<close>. A buffer that passes it is handed to the driver
  through \<open>gl.Ptr\<close>, which panics before the upload when the buffer is empty.
\<close>

definition SetPixels ::
  "Texture \<Rightarrow> goint \<Rightarrow> goint \<Rightarrow> goint \<Rightarrow> goint \<Rightarrow> uint8 list \<Rightarrow> gl_state \<Rightarrow> panic + gl_state" where
  "SetPixels t x y w h pixels s =
     (if int (length pixels) \<noteq> sint (w * h * 4)
      then Inl (PanicMsg ''set pixels: wrong number of pixels'')
      else (case Ptr pixels of
              Inl e \<Rightarrow> Inl e
            | Inr p \<Rightarrow>
                (let s1 = TexSubImage2D TEXTURE_2D 0 (to_int32 x) (to_int32 y) (to_int32 w)
                            (to_int32 h) RGBA UNSIGNED_BYTE p s
                 in Inr (if 0 <s mipmapLevels t then GenerateMipmap TEXTURE_2D s1 else s1))))"

text \<open>The loop counter below its bound can be incremented without wrap-around.\<close>

lemma sint_succ: "i <s h \<Longrightarrow> sint (i + 1) = sint i + 1" for i h :: goint
proof -
  assume "i <s h"
  then have "sint i < sint h" by (simp add: word_sless_alt)
  moreover have "sint h < 2 ^ 63" using sint_lt [of h] by simp
  moreover have "- (2 ^ 63) \<le> sint i" using sint_ge [of i] by simp
  ultimately have "signed_take_bit 63 (sint i + 1) = sint i + 1"
    by (intro signed_take_bit_int_eq_self) auto
  then show ?thesis by (simp add: sint_word_ariths)
qed

text \<open>
  \<open>Pixels\<close>. The loop \<open>for i := 0; i < h; i++\<close> is \<open>Pixels_loop\<close>, started at
  \<open>i = 0\<close>; each round slices \<open>row\<close> out of the read-back buffer, then \<open>subRow\<close> out
  of the result buffer, and copies. Either slice expression can panic.
\<close>

function Pixels_loop ::
  "Texture \<Rightarrow> goint \<Rightarrow> goint \<Rightarrow> goint \<Rightarrow> goint \<Rightarrow> uint8 list \<Rightarrow> goint \<Rightarrow> uint8 list
     \<Rightarrow> panic + uint8 list" where
  "Pixels_loop t x y w h pixels i subPixels =
     (if i <s h
      then (case slice pixels ((i + y) * width t * 4 + x * 4)
                   ((i + y) * width t * 4 + (x + w) * 4) of
              Inl e \<Rightarrow> Inl e
            | Inr row \<Rightarrow>
                (if slice_ok subPixels (i * w * 4) ((i + 1) * w * 4)
                 then Pixels_loop t x y w h pixels (i + 1)
                        (copy_into subPixels (i * w * 4) ((i + 1) * w * 4) row)
                 else Inl SliceBoundsOutOfRange))
      else Inr subPixels)"
  by pat_completeness auto

termination
proof (relation "measure (\<lambda>(t, x, y, w, h, pixels, i, subPixels). nat (sint h - sint i))")
  show "wf (measure (\<lambda>(t, x, y, w, h, pixels, i, subPixels). nat (sint h - sint i)))"
    by simp
next
  fix t :: Texture and x y w h i :: goint and pixels subPixels x2 :: "uint8 list"
  assume "i <s h"
  then have "sint (i + 1) = sint i + 1" and "sint i < sint h"
    by (simp_all add: sint_succ word_sless_alt)
  then show "((t, x, y, w, h, pixels, i + 1, copy_into subPixels (i * w * 4) ((i + 1) * w * 4) x2),
              (t, x, y, w, h, pixels, i, subPixels))
             \<in> measure (\<lambda>(t, x, y, w, h, pixels, i, subPixels). nat (sint h - sint i))"
    by simp
qed

declare Pixels_loop.simps [simp del]

text \<open>
  The body of \<open>Pixels\<close> around the loop: the read-back buffer is made, handed to
  \<open>gl.GetTexImage\<close> through \<open>gl.Ptr\<close> (which panics, before the call, on an empty
  buffer), and then the result buffer is made.
\<close>

definition Pixels ::
  "Texture \<Rightarrow> goint \<Rightarrow> goint \<Rightarrow> goint \<Rightarrow> goint \<Rightarrow> gl_state
     \<Rightarrow> (panic + uint8 list) \<times> gl_state" where
  "Pixels t x y w h s =
     (case make_bytes (width t * height t * 4) of
        Inl e \<Rightarrow> (Inl e, s)
      | Inr buf \<Rightarrow>
          (case Ptr buf of
             Inl e \<Rightarrow> (Inl e, s)
           | Inr p \<Rightarrow>
               (let (pixels, s1) = GetTexImage TEXTURE_2D 0 RGBA UNSIGNED_BYTE p s
                in case make_bytes (w * h * 4) of
                     Inl e \<Rightarrow> (Inl e, s1)
                   | Inr subPixels \<Rightarrow> (Pixels_loop t x y w h pixels 0 subPixels, s1))))"

text \<open>
  The slice expressions of one round of the loop of \<open>Pixels\<close>, with the loop counter
  at \<open>i\<close>, are within bounds: \<open>row\<close> within the read-back buffer of
  \<open>width*height*4\<close> bytes and \<open>subRow\<close> within the result buffer of \<open>w*h*4\<close> bytes
  (the arithmetic is the program's). \<open>rows_in_bounds\<close> says so of every round
  \<open>0 \<le> i < h\<close>.
\<close>

definition row_in_bounds ::
  "Texture \<Rightarrow> goint \<Rightarrow> goint \<Rightarrow> goint \<Rightarrow> goint \<Rightarrow> goint \<Rightarrow> bool" where
  "row_in_bounds t x y w h i \<longleftrightarrow>
     slice_ok (replicate (nat (sint (width t * height t * 4))) (0 :: uint8))
       ((i + y) * width t * 4 + x * 4) ((i + y) * width t * 4 + (x + w) * 4) \<and>
     slice_ok (replicate (nat (sint (w * h * 4))) (0 :: uint8)) (i * w * 4) ((i + 1) * w * 4)"

definition rows_in_bounds :: "Texture \<Rightarrow> goint \<Rightarrow> goint \<Rightarrow> goint \<Rightarrow> goint \<Rightarrow> bool" where
  "rows_in_bounds t x y w h \<longleftrightarrow>
     list_all (\<lambda>k. row_in_bounds t x y w h (of_nat k)) [0..<nat (sint h)]"


section \<open>Fixtures\<close>

text \<open>
  A fresh context \<open>ctx0\<close> with nothing bound; the 4 by 4 texture without mipmaps
  \<open>texA\<close> that \<open>NewTexture(4, 4, 0, false, 64 bytes)\<close> returns in it, leaving the context
  \<open>ctxA\<close>; and the 2 by 2 texture with three mipmap levels \<open>texB\<close> that
  \<open>NewTexture(2, 2, 3, true, 16 bytes)\<close> returns next, leaving \<open>ctxB\<close> (lemmas
  \<open>texA_made\<close> and \<open>texB_made\<close>).
\<close>

definition ctx0 :: gl_state where
  "ctx0 = \<lparr>slots = (\<lambda>_. 0), params = (\<lambda>_. None), next_name = 1, readback = [], calls = []\<rparr>"

definition texA :: Texture where
  "texA = \<lparr>tex = \<lparr>restoreLoc = TEXTURE_BINDING_2D, bindFunc = BindTexture TEXTURE_2D,
                   obj = 1, prev = []\<rparr>,
           width = 4, height = 4, mipmapLevels = 0, smooth = False\<rparr>"

definition ctxA :: gl_state where
  "ctxA = snd (NewTexture 4 4 0 False (replicate 64 0) ctx0)"

definition texB :: Texture where
  "texB = \<lparr>tex = \<lparr>restoreLoc = TEXTURE_BINDING_2D, bindFunc = BindTexture TEXTURE_2D,
                   obj = 2, prev = []\<rparr>,
           width = 2, height = 2, mipmapLevels = 3, smooth = True\<rparr>"

definition ctxB :: gl_state where
  "ctxB = snd (NewTexture 2 2 3 True (replicate 16 0) ctxA)"

text \<open>
  The texture without an image, \<open>texE\<close>, that \<open>NewTexture(0, 0, 0, false, 1 byte)\<close>
  returns after these, leaving \<open>ctxE\<close> (lemma \<open>texE_made\<close>).
\<close>

definition texE :: Texture where
  "texE = \<lparr>tex = \<lparr>restoreLoc = TEXTURE_BINDING_2D, bindFunc = BindTexture TEXTURE_2D,
                   obj = 3, prev = []\<rparr>,
           width = 0, height = 0, mipmapLevels = 0, smooth = False\<rparr>"

definition ctxE :: gl_state where
  "ctxE = snd (NewTexture 0 0 0 False [0] ctxB)"

text \<open>
  The context with \<open>texA\<close> bound, where the driver reads back the bytes 0, 1, ..., 63
  for its 4 by 4 image.
\<close>

definition ctxR :: gl_state where
  "ctxR = (snd (Begin texA ctxA))\<lparr>readback := map of_nat [0..<64]\<rparr>"

text \<open>
  A texture as \<open>NewTexture\<close> makes it and the methods keep it: it restores from the
  2D-texture binding slot and binds with \<open>gl.BindTexture(gl.TEXTURE_2D, obj)\<close>.
\<close>

definition well_formed :: "Texture \<Rightarrow> bool" where
  "well_formed t \<longleftrightarrow>
     restoreLoc (tex t) = TEXTURE_BINDING_2D \<and> bindFunc (tex t) = BindTexture TEXTURE_2D"

section \<open>Arithmetic without wrap-around\<close>

lemma sint_mult_nowrap:
  "- (2 ^ 63) \<le> sint a * sint b \<Longrightarrow> sint a * sint b < 2 ^ 63 \<Longrightarrow> sint (a * b) = sint a * sint b"
  for a b :: goint
  by (simp add: sint_word_ariths signed_take_bit_int_eq_self)


lemma sint_mult_nonneg:
  fixes a b :: goint
  assumes "0 \<le> sint a" and "0 \<le> sint b" and "sint a * sint b < 2 ^ 63"
  shows "sint (a * b) = sint a * sint b"
proof (rule sint_mult_nowrap)
  have "- (2 ^ 63) \<le> (0 :: int)" by simp
  also have "0 \<le> sint a * sint b" using assms(1,2) by (rule mult_nonneg_nonneg)
  finally show "- (2 ^ 63) \<le> sint a * sint b" .
  show "sint a * sint b < 2 ^ 63" by (rule assms(3))
qed

lemma sint_times4:
  fixes a :: goint
  assumes "0 \<le> sint a" and "sint a * 4 < 2 ^ 63"
  shows "sint (a * 4) = sint a * 4"
  using sint_mult_nonneg [of a 4] assms by simp




section \<open>What each operation does to the context\<close>

lemmas gl_calls =
  emit_def GetIntegerv_def GenTextures_def BindTexture_def TexParameteri_def TexParameterfv_def
  TexStorage2D_def TexSubImage2D_def TexImage2D_def GenerateMipmap_def GetTexImage_def
  SetFinalizer_def

lemma SetSmooth_params:
  "params (snd (SetSmooth t sm s)) =
     (params s)
       ((slots s TEXTURE_BINDING_2D, TEXTURE_MIN_FILTER) \<mapsto>
          (if sm then (if 0 < sint (mipmapLevels t) then LINEAR_MIPMAP_LINEAR else LINEAR)
           else (if 0 < sint (mipmapLevels t) then LINEAR_MIPMAP_NEAREST else NEAREST)),
        (slots s TEXTURE_BINDING_2D, TEXTURE_MAG_FILTER) \<mapsto> (if sm then LINEAR else NEAREST))"
  by (simp add: SetSmooth_def TexParameteri_def emit_def Let_def word_sless_alt)

lemma SetSmooth_slots: "slots (snd (SetSmooth t sm s)) = slots s"
  by (simp add: SetSmooth_def TexParameteri_def emit_def Let_def)

lemma SetSmooth_texture: "fst (SetSmooth t sm s) = t\<lparr>smooth := sm\<rparr>"
  by (simp add: SetSmooth_def Let_def)

lemma Begin_slot:
  "well_formed t \<Longrightarrow> slots (snd (Begin t s)) TEXTURE_BINDING_2D = obj (tex t)"
  by (simp add: well_formed_def Begin_def bind_def BindTexture_def emit_def Let_def)

lemma Begin_prev:
  "well_formed t \<Longrightarrow> prev (tex (fst (Begin t s))) = slots s TEXTURE_BINDING_2D # prev (tex t)"
  by (simp add: well_formed_def Begin_def bind_def GetIntegerv_def Let_def)

lemma End_slot:
  "well_formed t \<Longrightarrow> prev (tex t) = p # ps \<Longrightarrow> slots (snd (End t s)) TEXTURE_BINDING_2D = p"
  by (simp add: well_formed_def End_def restore_def BindTexture_def emit_def Let_def)

lemma End_prev: "prev (tex t) = p # ps \<Longrightarrow> prev (tex (fst (End t s))) = ps"
  by (simp add: End_def restore_def Let_def)

lemma Begin_well_formed: "well_formed t \<Longrightarrow> well_formed (fst (Begin t s))"
  by (simp add: well_formed_def Begin_def bind_def Let_def)

lemma End_well_formed: "well_formed t \<Longrightarrow> well_formed (fst (End t s))"
  by (simp add: well_formed_def End_def restore_def Let_def split: list.splits)

lemma Begin_fields:
  "obj (tex (fst (Begin t s))) = obj (tex t)"
  "mipmapLevels (fst (Begin t s)) = mipmapLevels t"
  by (simp_all add: Begin_def bind_def Let_def)

lemma End_fields:
  "obj (tex (fst (End t s))) = obj (tex t)"
  "mipmapLevels (fst (End t s)) = mipmapLevels t"
  by (simp_all add: End_def restore_def Let_def split: list.splits)

lemmas NewTexture_unfold =
  NewTexture_def Ptr_def Begin_def End_def bind_def restore_def gl_calls SetSmooth_def
  SetWrap_def Let_def split_def

lemma NewTexture_slots:
  "slots (snd (NewTexture w h levels sm pixels s)) TEXTURE_BINDING_2D = slots s TEXTURE_BINDING_2D"
  by (simp add: NewTexture_unfold)

lemma NewTexture_panics_iff: "isl (fst (NewTexture w h levels sm pixels s)) \<longleftrightarrow> pixels = []"
  by (simp add: NewTexture_unfold)

lemma NewTexture_panic:
  "pixels = [] \<Longrightarrow>
   fst (NewTexture w h levels sm pixels s) = Inl (PanicMsg ''reflect: slice index out of range'')"
  by (simp add: NewTexture_unfold)

lemma NewTexture_panic_calls:
  "pixels = [] \<Longrightarrow>
   calls (snd (NewTexture w h levels sm pixels s)) =
     calls s @
     [CallGenTextures (next_name s), CallBindTexture TEXTURE_2D (next_name s)] @
     (if 0 < sint levels
      then [CallTexStorage2D TEXTURE_2D (to_int32 levels) RGBA8 (to_int32 w) (to_int32 h)]
      else []) @
     [CallBindTexture TEXTURE_2D (slots s TEXTURE_BINDING_2D)]"
  by (simp add: NewTexture_unfold word_sless_alt)

lemma NewTexture_calls:
  "pixels \<noteq> [] \<Longrightarrow>
   calls (snd (NewTexture w h levels sm pixels s)) =
     calls s @
     [CallGenTextures (next_name s), CallBindTexture TEXTURE_2D (next_name s)] @
     (if 0 < sint levels
      then [CallTexStorage2D TEXTURE_2D (to_int32 levels) RGBA8 (to_int32 w) (to_int32 h),
            CallTexSubImage2D TEXTURE_2D 0 0 0 (to_int32 w) (to_int32 h) RGBA UNSIGNED_BYTE pixels,
            CallGenerateMipmap TEXTURE_2D]
      else [CallTexImage2D TEXTURE_2D 0 (ucast RGBA) (to_int32 w) (to_int32 h) 0 RGBA
              UNSIGNED_BYTE pixels]) @
     [CallTexParameterfv TEXTURE_2D TEXTURE_BORDER_COLOR [0, 0, 0, 0],
      CallTexParameteri TEXTURE_2D TEXTURE_MIN_FILTER
        (if sm then (if 0 < sint levels then LINEAR_MIPMAP_LINEAR else LINEAR)
         else (if 0 < sint levels then LINEAR_MIPMAP_NEAREST else NEAREST)),
      CallTexParameteri TEXTURE_2D TEXTURE_MAG_FILTER (if sm then LINEAR else NEAREST),
      CallTexParameteri TEXTURE_2D TEXTURE_WRAP_S CLAMP_TO_BORDER,
      CallTexParameteri TEXTURE_2D TEXTURE_WRAP_T CLAMP_TO_BORDER,
      CallSetFinalizer (next_name s),
      CallBindTexture TEXTURE_2D (slots s TEXTURE_BINDING_2D)]"
  by (simp add: NewTexture_unfold word_sless_alt)

lemma NewTexture_texture:
  "pixels \<noteq> [] \<Longrightarrow>
   fst (NewTexture w h levels sm pixels s) =
     Inr \<lparr>tex = \<lparr>restoreLoc = TEXTURE_BINDING_2D, bindFunc = BindTexture TEXTURE_2D,
                  obj = next_name s, prev = []\<rparr>,
          width = w, height = h, mipmapLevels = levels, smooth = sm\<rparr>"
  by (simp add: NewTexture_unfold)

lemma NewTexture_params:
  "pixels \<noteq> [] \<Longrightarrow>
   params (snd (NewTexture w h levels sm pixels s)) (next_name s, TEXTURE_WRAP_S) =
     Some CLAMP_TO_BORDER"
  "pixels \<noteq> [] \<Longrightarrow>
   params (snd (NewTexture w h levels sm pixels s)) (next_name s, TEXTURE_WRAP_T) =
     Some CLAMP_TO_BORDER"
  by (simp_all add: NewTexture_unfold gl_consts)

lemma texA_eq:
  "texA = \<lparr>tex = \<lparr>restoreLoc = TEXTURE_BINDING_2D, bindFunc = BindTexture TEXTURE_2D,
                   obj = 1, prev = []\<rparr>,
           width = 4, height = 4, mipmapLevels = 0, smooth = False\<rparr>"
  by (rule texA_def)

lemma texA_made: "NewTexture 4 4 0 False (replicate 64 0) ctx0 = (Inr texA, ctxA)"
proof -
  have "fst (NewTexture 4 4 0 False (replicate 64 0) ctx0) = Inr texA"
    by (simp add: NewTexture_texture texA_def ctx0_def)
  then show ?thesis by (simp add: ctxA_def prod_eq_iff)
qed

lemma ctxA_simps:
  "slots ctxA TEXTURE_BINDING_2D = 0" "next_name ctxA = 2" "readback ctxA = []"
  by (simp_all add: ctxA_def ctx0_def NewTexture_unfold)

lemma texB_eq:
  "texB = \<lparr>tex = \<lparr>restoreLoc = TEXTURE_BINDING_2D, bindFunc = BindTexture TEXTURE_2D,
                   obj = 2, prev = []\<rparr>,
           width = 2, height = 2, mipmapLevels = 3, smooth = True\<rparr>"
  by (rule texB_def)

lemma texB_made: "NewTexture 2 2 3 True (replicate 16 0) ctxA = (Inr texB, ctxB)"
proof -
  have "fst (NewTexture 2 2 3 True (replicate 16 0) ctxA) = Inr texB"
    by (simp add: NewTexture_texture texB_def ctxA_simps)
  then show ?thesis by (simp add: ctxB_def prod_eq_iff)
qed

lemma ctxB_simps: "slots ctxB TEXTURE_BINDING_2D = 0" "next_name ctxB = 3"
  by (simp_all add: ctxB_def NewTexture_unfold ctxA_simps)

lemma texE_made: "NewTexture 0 0 0 False [0] ctxB = (Inr texE, ctxE)"
proof -
  have "fst (NewTexture 0 0 0 False [0] ctxB) = Inr texE"
    by (simp add: NewTexture_texture texE_def ctxB_simps)
  then show ?thesis by (simp add: ctxE_def prod_eq_iff)
qed

lemma well_formed_fixtures: "well_formed texA" "well_formed texB"
  by (simp_all add: well_formed_def texA_def texB_def)

section \<open>The loop of Pixels\<close>

lemma slice_ok_length: "length xs = length ys \<Longrightarrow> slice_ok xs lo hi = slice_ok ys lo hi"
  by (simp add: slice_ok_def)

lemma length_copy_into:
  "slice_ok xs lo hi \<Longrightarrow> length (copy_into xs lo hi src) = length xs"
  by (auto simp: slice_ok_def copy_into_def Let_def word_sle_eq min_def)

lemma upt_empty: "n \<le> m \<Longrightarrow> [m..<n] = []"
  by simp

lemma Pixels_loop_panics_iff:
  "0 \<le> sint i \<Longrightarrow>
   isl (Pixels_loop t x y w h pixels i subPixels) \<longleftrightarrow>
     \<not> list_all (\<lambda>k. slice_ok pixels ((of_nat k + y) * width t * 4 + x * 4)
                         ((of_nat k + y) * width t * 4 + (x + w) * 4) \<and>
                      slice_ok subPixels (of_nat k * w * 4) ((of_nat k + 1) * w * 4))
          [nat (sint i)..<nat (sint h)]"
proof (induction t x y w h pixels i subPixels rule: Pixels_loop.induct)
  case (1 t x y w h pixels i subPixels)
  let ?ok = "\<lambda>sub k. slice_ok pixels ((of_nat k + y) * width t * 4 + x * 4)
                         ((of_nat k + y) * width t * 4 + (x + w) * 4) \<and>
                      slice_ok sub (of_nat k * w * 4) ((of_nat k + 1) * w * 4)"
  show ?case
  proof (cases "i <s h")
    case False
    then have "sint h \<le> sint i" by (simp add: word_sless_alt)
    then have "nat (sint h) \<le> nat (sint i)" by (rule nat_mono)
    then have "[nat (sint i)..<nat (sint h)] = []" by (rule upt_empty)
    moreover have "Pixels_loop t x y w h pixels i subPixels = Inr subPixels"
      using False by (subst Pixels_loop.simps) simp
    ultimately show ?thesis by (simp only: list.pred_inject sum.disc simp_thms)
  next
    case True
    then have lt: "nat (sint i) < nat (sint h)" using "1.prems" by (simp add: word_sless_alt)
    have i_eq: "of_nat (nat (sint i)) = i" using "1.prems" by simp
    have succ: "nat (sint (i + 1)) = Suc (nat (sint i))" "0 \<le> sint (i + 1)"
      using sint_succ [OF True] "1.prems" by simp_all
    have upt: "[nat (sint i)..<nat (sint h)] = nat (sint i) # [nat (sint (i + 1))..<nat (sint h)]"
      using lt by (simp add: upt_conv_Cons succ)
    have split: "list_all (?ok subPixels) [nat (sint i)..<nat (sint h)] \<longleftrightarrow>
        (slice_ok pixels ((i + y) * width t * 4 + x * 4) ((i + y) * width t * 4 + (x + w) * 4) \<and>
         slice_ok subPixels (i * w * 4) ((i + 1) * w * 4)) \<and>
        list_all (?ok subPixels) [nat (sint (i + 1))..<nat (sint h)]"
      by (subst upt) (simp only: list.pred_inject i_eq)
    show ?thesis
    proof (cases "slice_ok pixels ((i + y) * width t * 4 + x * 4)
                    ((i + y) * width t * 4 + (x + w) * 4)")
      case False
      then have "Pixels_loop t x y w h pixels i subPixels = Inl SliceBoundsOutOfRange"
        using True by (subst Pixels_loop.simps) (simp add: slice_def)
      then show ?thesis using False split by simp
    next
      case pk: True
      then obtain row where row:
        "slice pixels ((i + y) * width t * 4 + x * 4) ((i + y) * width t * 4 + (x + w) * 4) = Inr row"
        by (simp add: slice_def)
      show ?thesis
      proof (cases "slice_ok subPixels (i * w * 4) ((i + 1) * w * 4)")
        case False
        then have "Pixels_loop t x y w h pixels i subPixels = Inl SliceBoundsOutOfRange"
          using True row by (subst Pixels_loop.simps) simp
        then show ?thesis using False split by simp
      next
        case sk: True
        let ?sub' = "copy_into subPixels (i * w * 4) ((i + 1) * w * 4) row"
        have len: "length ?sub' = length subPixels" using sk by (rule length_copy_into)
        have ih: "isl (Pixels_loop t x y w h pixels (i + 1) ?sub') \<longleftrightarrow>
                    \<not> list_all (?ok ?sub') [nat (sint (i + 1))..<nat (sint h)]"
          using "1.IH" [OF True row sk succ(2)] .
        have same: "?ok ?sub' = ?ok subPixels"
          using slice_ok_length [OF len] by (intro ext) simp
        have step: "Pixels_loop t x y w h pixels i subPixels =
                      Pixels_loop t x y w h pixels (i + 1) ?sub'"
          using True row sk by (subst Pixels_loop.simps) simp
        have "isl (Pixels_loop t x y w h pixels i subPixels) \<longleftrightarrow>
                \<not> list_all (?ok subPixels) [nat (sint (i + 1))..<nat (sint h)]"
          using ih by (simp only: step same)
        also have "\<dots> \<longleftrightarrow> \<not> list_all (?ok subPixels) [nat (sint i)..<nat (sint h)]"
          using pk sk by (simp only: split simp_thms)
        finally show ?thesis .
      qed
    qed
  qed
qed

lemma length_GetTexImage:
  "length (fst (GetTexImage target level format xtype buf s)) = length buf"
  by (simp add: GetTexImage_def)


lemma Pixels_loop_length:
  "Pixels_loop t x y w h pixels i subPixels = Inr r \<Longrightarrow> length r = length subPixels"
proof (induction t x y w h pixels i subPixels rule: Pixels_loop.induct)
  case (1 t x y w h pixels i subPixels)
  show ?case
  proof (cases "i <s h")
    case False
    then show ?thesis using "1.prems" by (subst (asm) Pixels_loop.simps) simp
  next
    case True
    from "1.prems" True obtain row where
      row: "slice pixels ((i + y) * width t * 4 + x * 4)
              ((i + y) * width t * 4 + (x + w) * 4) = Inr row"
      and sk: "slice_ok subPixels (i * w * 4) ((i + 1) * w * 4)"
      and rec: "Pixels_loop t x y w h pixels (i + 1)
                  (copy_into subPixels (i * w * 4) ((i + 1) * w * 4) row) = Inr r"
      by (subst (asm) Pixels_loop.simps) (simp split: sum.splits if_splits)
    have "length r = length (copy_into subPixels (i * w * 4) ((i + 1) * w * 4) row)"
      using True row sk rec by (rule "1.IH")
    then show ?thesis by (simp only: length_copy_into [OF sk])
  qed
qed





section \<open>Claims\<close>

text \<open>
  C1: \<open>Begin\<close> records the handle found in the 2D-texture binding slot and binds the
  texture's own handle; the matching \<open>End\<close> puts the recorded handle back, whatever has
  happened to the slot in between. Two textures nested (\<open>Begin t\<close>, \<open>Begin u\<close>,
  \<open>End u\<close>, \<open>End t\<close>) leave the slot at \<open>t\<close>'s handle after the inner \<open>End\<close> and at
  its first content after the outer one, and so does one texture nested in itself.
  Construction, with its \<open>Begin\<close> and deferred \<open>End\<close>, leaves the slot as it found it
  on both of its paths: when it returns a texture, and when it panics, which it does
  exactly when the pixel buffer is empty.
\<close>

theorem Begin_End_restores_binding:
  assumes "well_formed t" and "well_formed u"
  shows
    "slots (snd (Begin t s)) TEXTURE_BINDING_2D = ID t \<and>
     prev (tex (fst (Begin t s))) = slots s TEXTURE_BINDING_2D # prev (tex t) \<and>
     slots (snd (End (fst (Begin t s)) s')) TEXTURE_BINDING_2D = slots s TEXTURE_BINDING_2D \<and>
     prev (tex (fst (End (fst (Begin t s)) s'))) = prev (tex t) \<and>
     (let (t1, s1) = Begin t s; (u1, s2) = Begin u s1; (u2, s3) = End u1 s2;
          (t2, s4) = End t1 s3
      in slots s1 TEXTURE_BINDING_2D = ID t \<and> slots s2 TEXTURE_BINDING_2D = ID u \<and>
         slots s3 TEXTURE_BINDING_2D = ID t \<and>
         slots s4 TEXTURE_BINDING_2D = slots s TEXTURE_BINDING_2D) \<and>
     (let (t1, s1) = Begin t s; (t2, s2) = Begin t1 s1; (t3, s3) = End t2 s2;
          (t4, s4) = End t3 s3
      in slots s3 TEXTURE_BINDING_2D = ID t \<and>
         slots s4 TEXTURE_BINDING_2D = slots s TEXTURE_BINDING_2D \<and>
         prev (tex t4) = prev (tex t)) \<and>
     slots (snd (NewTexture w h levels sm pixels s)) TEXTURE_BINDING_2D =
       slots s TEXTURE_BINDING_2D \<and>
     (isl (fst (NewTexture w h levels sm pixels s)) \<longleftrightarrow> pixels = []) \<and>
     (case fst (NewTexture w h levels sm pixels s) of
        Inl e \<Rightarrow> e = PanicMsg ''reflect: slice index out of range''
      | Inr t' \<Rightarrow> well_formed t')"
proof -
  let ?t1 = "fst (Begin t s)" and ?s1 = "snd (Begin t s)"
  have wt1: "well_formed ?t1" using assms(1) by (rule Begin_well_formed)
  have p1: "prev (tex ?t1) = slots s TEXTURE_BINDING_2D # prev (tex t)"
    using assms(1) by (rule Begin_prev)
  have b1: "slots ?s1 TEXTURE_BINDING_2D = ID t"
    using assms(1) by (simp add: Begin_slot ID_def)
  have e1: "slots (snd (End ?t1 z)) TEXTURE_BINDING_2D = slots s TEXTURE_BINDING_2D" for z
    using wt1 p1 by (rule End_slot)
  have ep1: "prev (tex (fst (End ?t1 z))) = prev (tex t)" for z
    using p1 by (rule End_prev)
  have nested_u:
    "slots (snd (Begin u ?s1)) TEXTURE_BINDING_2D = ID u"
    "slots (snd (End (fst (Begin u ?s1)) (snd (Begin u ?s1)))) TEXTURE_BINDING_2D = ID t"
  proof -
    show "slots (snd (Begin u ?s1)) TEXTURE_BINDING_2D = ID u"
      using assms(2) by (simp add: Begin_slot ID_def)
    have "prev (tex (fst (Begin u ?s1))) = slots ?s1 TEXTURE_BINDING_2D # prev (tex u)"
      using assms(2) by (rule Begin_prev)
    with Begin_well_formed [OF assms(2)]
    have "slots (snd (End (fst (Begin u ?s1)) (snd (Begin u ?s1)))) TEXTURE_BINDING_2D =
            slots ?s1 TEXTURE_BINDING_2D"
      by (rule End_slot)
    then show "slots (snd (End (fst (Begin u ?s1)) (snd (Begin u ?s1)))) TEXTURE_BINDING_2D = ID t"
      by (simp add: b1)
  qed
  let ?t2 = "fst (Begin ?t1 ?s1)" and ?s2 = "snd (Begin ?t1 ?s1)"
  have wt2: "well_formed ?t2" using wt1 by (rule Begin_well_formed)
  have p2: "prev (tex ?t2) = slots ?s1 TEXTURE_BINDING_2D # prev (tex ?t1)"
    using wt1 by (rule Begin_prev)
  have e2: "slots (snd (End ?t2 ?s2)) TEXTURE_BINDING_2D = ID t"
    using End_slot [OF wt2 p2] by (simp add: b1)
  let ?t3 = "fst (End ?t2 ?s2)" and ?s3 = "snd (End ?t2 ?s2)"
  have wt3: "well_formed ?t3" using wt2 by (rule End_well_formed)
  have p3: "prev (tex ?t3) = slots s TEXTURE_BINDING_2D # prev (tex t)"
    using End_prev [OF p2] p1 by simp
  have e3: "slots (snd (End ?t3 ?s3)) TEXTURE_BINDING_2D = slots s TEXTURE_BINDING_2D"
    using wt3 p3 by (rule End_slot)
  have ep3: "prev (tex (fst (End ?t3 ?s3))) = prev (tex t)"
    using p3 by (rule End_prev)
  have made: "case fst (NewTexture w h levels sm pixels s) of
                Inl e \<Rightarrow> e = PanicMsg ''reflect: slice index out of range''
              | Inr t' \<Rightarrow> well_formed t'"
  proof (cases "pixels = []")
    case True
    then show ?thesis by (simp add: NewTexture_panic)
  next
    case False
    then show ?thesis by (simp add: NewTexture_texture well_formed_def)
  qed
  show ?thesis
    using b1 p1 e1 ep1 nested_u e2 e3 ep3 NewTexture_slots NewTexture_panics_iff made
    by (simp add: split_def Let_def)
qed

theorem Begin_End_restores_binding_witness:
  "well_formed texA \<and> well_formed texB \<and>
   slots (snd (Begin texA ctxB)) TEXTURE_BINDING_2D = 1 \<and>
   slots (snd (End (fst (Begin texA ctxB)) (snd (Begin texA ctxB)))) TEXTURE_BINDING_2D = 0 \<and>
   (let (t1, s1) = Begin texA ctxB; (u1, s2) = Begin texB s1; (u2, s3) = End u1 s2;
        (t2, s4) = End t1 s3
    in slots s1 TEXTURE_BINDING_2D = 1 \<and> slots s2 TEXTURE_BINDING_2D = 2 \<and>
       slots s3 TEXTURE_BINDING_2D = 1 \<and> slots s4 TEXTURE_BINDING_2D = 0) \<and>
   isl (fst (NewTexture 4 4 0 False [] (snd (Begin texA ctxB)))) \<and>
   slots (snd (NewTexture 4 4 0 False [] (snd (Begin texA ctxB)))) TEXTURE_BINDING_2D = 1 \<and>
   \<not> isl (fst (NewTexture 4 4 0 False [7, 7, 7, 7] (snd (Begin texA ctxB)))) \<and>
   slots (snd (NewTexture 4 4 0 False [7, 7, 7, 7] (snd (Begin texA ctxB)))) TEXTURE_BINDING_2D = 1"
proof -
  have wa: "well_formed texA" and wb: "well_formed texB" by (rule well_formed_fixtures)+
  have sb: "slots ctxB TEXTURE_BINDING_2D = 0"
    by (simp add: ctxB_def NewTexture_slots ctxA_simps)
  have ids: "ID texA = 1" "ID texB = 2" by (simp_all add: ID_def texA_eq texB_eq)
  have s1: "slots (snd (Begin texA ctxB)) TEXTURE_BINDING_2D = 1"
    using wa by (simp add: Begin_slot texA_eq)
  show ?thesis
    using Begin_End_restores_binding
        [OF wa wb, where s = ctxB and s' = "snd (Begin texA ctxB)"]
      Begin_End_restores_binding
        [OF wa wb, where s = "snd (Begin texA ctxB)" and pixels = "[]" and w = 4 and h = 4
           and levels = 0 and sm = False]
      Begin_End_restores_binding
        [OF wa wb, where s = "snd (Begin texA ctxB)" and pixels = "[7, 7, 7, 7]" and w = 4
           and h = 4 and levels = 0 and sm = False]
      wa wb sb ids s1
    by (simp add: split_def Let_def)
qed



text \<open>
  C3, evaluated where the code departs from it. The claim: \<open>SetSmooth(false)\<close> sets the
  magnification filter to nearest and the minification filter to
  nearest-with-mipmap-nearest-step (\<open>NEAREST_MIPMAP_NEAREST\<close>) when the texture has
  mipmap levels. On the bound texture \<open>texB\<close>, constructed with three levels, the code sets the
  minification filter to \<open>LINEAR_MIPMAP_NEAREST\<close>, a different constant: linear
  filtering inside the nearest level. (The other three cases of the claim are the cases
  of \<open>SetSmooth_params\<close>.)
\<close>

theorem SetSmooth_false_mipmapped_min_filter:
  "NewTexture 2 2 3 True (replicate 16 0) ctxA = (Inr texB, ctxB) \<and>
   (let (t1, s1) = Begin texB ctxB; (t2, s2) = SetSmooth t1 False s1
    in params s2 (ID texB, TEXTURE_MIN_FILTER)) = Some LINEAR_MIPMAP_NEAREST \<and>
   (let (t1, s1) = Begin texB ctxB; (t2, s2) = SetSmooth t1 False s1
    in params s2 (ID texB, TEXTURE_MAG_FILTER)) = Some NEAREST \<and>
   0 < sint (mipmapLevels texB) \<and>
   LINEAR_MIPMAP_NEAREST \<noteq> NEAREST_MIPMAP_NEAREST"
proof -
  have wb: "well_formed texB" by (rule well_formed_fixtures)
  have b: "slots (snd (Begin texB ctxB)) TEXTURE_BINDING_2D = ID texB"
    using wb by (simp add: Begin_slot ID_def)
  have m: "mipmapLevels (fst (Begin texB ctxB)) = 3"
    by (simp add: Begin_fields texB_eq)
  have ne: "TEXTURE_MIN_FILTER \<noteq> TEXTURE_MAG_FILTER" by (simp add: gl_consts)
  have "params (snd (SetSmooth (fst (Begin texB ctxB)) False (snd (Begin texB ctxB))))
          (ID texB, TEXTURE_MIN_FILTER) = Some LINEAR_MIPMAP_NEAREST"
       "params (snd (SetSmooth (fst (Begin texB ctxB)) False (snd (Begin texB ctxB))))
          (ID texB, TEXTURE_MAG_FILTER) = Some NEAREST"
    by (simp_all add: SetSmooth_params b m ne)
  moreover have "0 < sint (mipmapLevels texB)" by (simp add: texB_eq)
  moreover have "LINEAR_MIPMAP_NEAREST \<noteq> NEAREST_MIPMAP_NEAREST" by (simp add: gl_consts)
  ultimately show ?thesis using texB_made by (simp add: split_def Let_def)
qed

text \<open>
  C4, evaluated where the code departs from it. The claim: construction with a pixel
  buffer whose length is not \<open>width*height*4\<close> fails with an invalid-size error.
  \<open>NewTexture\<close> has no test of the length: with width 4, height 4 and a buffer of 60
  bytes it returns the texture named 1 after handing the 60 bytes to \<open>TexImage2D\<close> for
  a 4 by 4 image, while \<open>SetPixels\<close> refuses the same buffer for the same rectangle.
\<close>

theorem NewTexture_accepts_short_buffer:
  "length (replicate 60 (0 :: uint8)) = 60 \<and>
   sint (4 * 4 * 4 :: goint) = 64 \<and>
   fst (NewTexture 4 4 0 False (replicate 60 0) ctx0) = Inr texA \<and>
   ID texA = 1 \<and>
   calls (snd (NewTexture 4 4 0 False (replicate 60 0) ctx0)) =
     [CallGenTextures 1, CallBindTexture TEXTURE_2D 1,
      CallTexImage2D TEXTURE_2D 0 (ucast RGBA) 4 4 0 RGBA UNSIGNED_BYTE (replicate 60 0),
      CallTexParameterfv TEXTURE_2D TEXTURE_BORDER_COLOR [0, 0, 0, 0],
      CallTexParameteri TEXTURE_2D TEXTURE_MIN_FILTER NEAREST,
      CallTexParameteri TEXTURE_2D TEXTURE_MAG_FILTER NEAREST,
      CallTexParameteri TEXTURE_2D TEXTURE_WRAP_S CLAMP_TO_BORDER,
      CallTexParameteri TEXTURE_2D TEXTURE_WRAP_T CLAMP_TO_BORDER,
      CallSetFinalizer 1, CallBindTexture TEXTURE_2D 0] \<and>
   isl (SetPixels texA 0 0 4 4 (replicate 60 0) ctxA)"
  by (simp add: NewTexture_calls NewTexture_texture ID_def ctx0_def to_int32_def SetPixels_def
      texA_def)

text \<open>
  C5 as stated fails: the claim is that \<open>SetPixels\<close> fails if and only if \<open>len(pixels)\<close>
  differs from \<open>w*h*4\<close>. With \<open>w = h = 0\<close> and an empty buffer the lengths agree, both
  being 0, and the call panics all the same: \<open>gl.Ptr\<close> indexes the first element of the
  empty buffer. Nothing is uploaded.
\<close>

theorem SetPixels_empty_buffer_panics:
  "int (length ([] :: uint8 list)) = sint (0 * 0 * 4 :: goint) \<and>
   SetPixels texA 0 0 0 0 [] ctxA = Inl (PanicMsg ''reflect: slice index out of range'') \<and>
   isl (SetPixels texA 0 0 0 0 [] ctxA)"
  by (simp add: SetPixels_def Ptr_def)

text \<open>
  C5 as amended: \<open>SetPixels(x, y, w, h, pixels)\<close> panics if and only if \<open>len(pixels)\<close>
  differs from the value of \<open>w*h*4\<close> or the buffer is empty; an empty buffer whose length
  agrees panics inside \<open>gl.Ptr\<close>, not with the size-mismatch message. When the lengths
  agree and the buffer is not empty the call returns, having issued the upload of the
  sub-rectangle. The value of \<open>w*h*4\<close> is the product itself whenever the product of the
  non-negative \<open>w\<close> and \<open>h\<close> with 4 fits an \<open>int\<close>.
\<close>

theorem SetPixels_fails_iff_mismatch_or_empty:
  "(isl (SetPixels t x y w h pixels s) \<longleftrightarrow>
      int (length pixels) \<noteq> sint (w * h * 4) \<or> pixels = []) \<and>
   (int (length pixels) = sint (w * h * 4) \<and> pixels = [] \<longrightarrow>
      SetPixels t x y w h pixels s = Inl (PanicMsg ''reflect: slice index out of range'')) \<and>
   (int (length pixels) = sint (w * h * 4) \<and> pixels \<noteq> [] \<longrightarrow>
      (\<exists>s'. SetPixels t x y w h pixels s = Inr s' \<and>
            CallTexSubImage2D TEXTURE_2D 0 (to_int32 x) (to_int32 y) (to_int32 w) (to_int32 h)
              RGBA UNSIGNED_BYTE pixels \<in> set (calls s'))) \<and>
   (0 \<le> sint w \<and> 0 \<le> sint h \<and> sint w * sint h * 4 < 2 ^ 63 \<longrightarrow>
      sint (w * h * 4) = sint w * sint h * 4)"
proof -
  have a: "isl (SetPixels t x y w h pixels s) \<longleftrightarrow>
             int (length pixels) \<noteq> sint (w * h * 4) \<or> pixels = []"
    by (simp add: SetPixels_def Ptr_def Let_def)
  have e: "SetPixels t x y w h pixels s = Inl (PanicMsg ''reflect: slice index out of range'')"
    if "int (length pixels) = sint (w * h * 4)" "pixels = []"
    using that by (simp add: SetPixels_def Ptr_def)
  have b: "\<exists>s'. SetPixels t x y w h pixels s = Inr s' \<and>
            CallTexSubImage2D TEXTURE_2D 0 (to_int32 x) (to_int32 y) (to_int32 w) (to_int32 h)
              RGBA UNSIGNED_BYTE pixels \<in> set (calls s')"
    if "int (length pixels) = sint (w * h * 4)" "pixels \<noteq> []"
    using that by (simp add: SetPixels_def Ptr_def Let_def gl_calls)
  have c: "sint (w * h * 4) = sint w * sint h * 4"
    if "0 \<le> sint w" "0 \<le> sint h" "sint w * sint h * 4 < 2 ^ 63"
  proof -
    have nn: "0 \<le> sint w * sint h" using that(1,2) by (rule mult_nonneg_nonneg)
    have "sint w * sint h \<le> sint w * sint h * 4" using nn by linarith
    also note that(3)
    finally have "sint w * sint h < 2 ^ 63" .
    with that have wh: "sint (w * h) = sint w * sint h" by (intro sint_mult_nonneg)
    have "sint (w * h * 4) = sint (w * h) * 4"
      using nn that(3) by (intro sint_times4) (simp_all only: wh)
    then show ?thesis by (simp only: wh)
  qed
  show ?thesis using a e b c by blast
qed

theorem SetPixels_fails_iff_mismatch_or_empty_witness:
  "isl (SetPixels texA 1 1 2 2 (replicate 15 0) ctxA) \<and>
   isl (SetPixels texA 1 1 0 0 [] ctxA) \<and>
   (\<exists>s'. SetPixels texA 1 1 2 2 (replicate 16 0) ctxA = Inr s' \<and>
      CallTexSubImage2D TEXTURE_2D 0 1 1 2 2 RGBA UNSIGNED_BYTE (replicate 16 0) \<in> set (calls s')) \<and>
   sint (2 * 2 * 4 :: goint) = 16"
  using SetPixels_fails_iff_mismatch_or_empty [of texA 1 1 2 2 "replicate 15 0" ctxA]
    SetPixels_fails_iff_mismatch_or_empty [of texA 1 1 0 0 "[]" ctxA]
    SetPixels_fails_iff_mismatch_or_empty [of texA 1 1 2 2 "replicate 16 0" ctxA]
  by (simp add: to_int32_def)

text \<open>
  C6 as stated fails: the claim is that the size-mismatch failure names the expected and
  the actual byte count in its message. The message is one fixed text: expecting 64 bytes
  and getting 60, or expecting 4 and getting 7, gives the same panic value, and no decimal
  digit occurs in it.
\<close>

theorem SetPixels_message_has_no_counts:
  "SetPixels texA 0 0 4 4 (replicate 60 0) ctxA =
     Inl (PanicMsg ''set pixels: wrong number of pixels'') \<and>
   SetPixels texA 0 0 1 1 (replicate 7 0) ctxA =
     Inl (PanicMsg ''set pixels: wrong number of pixels'') \<and>
   set ''set pixels: wrong number of pixels'' \<inter> set ''0123456789'' = {}"
  by (simp add: SetPixels_def)

text \<open>
  C6 as amended: every size mismatch in \<open>SetPixels\<close> is reported by a panic with the
  fixed message "set pixels: wrong number of pixels", which names the operation and the
  kind of failure and carries no byte count.
\<close>

theorem SetPixels_mismatch_message:
  "int (length pixels) \<noteq> sint (w * h * 4) \<Longrightarrow>
   SetPixels t x y w h pixels s = Inl (PanicMsg ''set pixels: wrong number of pixels'')"
  by (simp add: SetPixels_def)

theorem SetPixels_mismatch_message_witness:
  "int (length (replicate 60 (0 :: uint8))) \<noteq> sint (4 * 4 * 4 :: goint) \<and>
   SetPixels texA 0 0 4 4 (replicate 60 0) ctxA =
     Inl (PanicMsg ''set pixels: wrong number of pixels'')"
proof -
  have h: "int (length (replicate 60 (0 :: uint8))) \<noteq> sint (4 * 4 * 4 :: goint)" by simp
  show ?thesis using h SetPixels_mismatch_message [OF h, of texA 0 0 ctxA] by simp
qed

text \<open>
  C7: the number of mipmap levels of a texture is the one it was constructed with
  (\<open>Begin\<close>, \<open>End\<close> and \<open>SetSmooth\<close> leave it alone). Every call of \<open>SetPixels\<close>
  that returns (those with a buffer of the right length that is not empty) has issued
  the upload of the sub-rectangle followed by one \<open>GenerateMipmap\<close> exactly when that
  number is positive, and by nothing otherwise. A call that panics, in the length test
  or in \<open>gl.Ptr\<close>, has issued neither.
\<close>

theorem SetPixels_regenerates_mipmaps_iff:
  "(\<forall>t'. fst (NewTexture tw th levels sm px s0) = Inr t' \<longrightarrow> mipmapLevels t' = levels) \<and>
   mipmapLevels (fst (Begin t s)) = mipmapLevels t \<and>
   mipmapLevels (fst (End t s)) = mipmapLevels t \<and>
   mipmapLevels (fst (SetSmooth t b s)) = mipmapLevels t \<and>
   (case SetPixels t x y w h pixels s of
      Inl e \<Rightarrow> int (length pixels) \<noteq> sint (w * h * 4) \<or> pixels = []
    | Inr s' \<Rightarrow>
        int (length pixels) = sint (w * h * 4) \<and> pixels \<noteq> [] \<and>
        calls s' =
          calls s @
          CallTexSubImage2D TEXTURE_2D 0 (to_int32 x) (to_int32 y) (to_int32 w) (to_int32 h)
            RGBA UNSIGNED_BYTE pixels #
          (if 0 < sint (mipmapLevels t) then [CallGenerateMipmap TEXTURE_2D] else []))"
proof -
  have made: "mipmapLevels t' = levels" if "fst (NewTexture tw th levels sm px s0) = Inr t'" for t'
  proof (cases "px = []")
    case True
    then show ?thesis using that by (simp add: NewTexture_panic)
  next
    case False
    then show ?thesis using that NewTexture_texture [OF False, of tw th levels sm s0] by auto
  qed
  have sp: "case SetPixels t x y w h pixels s of
      Inl e \<Rightarrow> int (length pixels) \<noteq> sint (w * h * 4) \<or> pixels = []
    | Inr s' \<Rightarrow>
        int (length pixels) = sint (w * h * 4) \<and> pixels \<noteq> [] \<and>
        calls s' =
          calls s @
          CallTexSubImage2D TEXTURE_2D 0 (to_int32 x) (to_int32 y) (to_int32 w) (to_int32 h)
            RGBA UNSIGNED_BYTE pixels #
          (if 0 < sint (mipmapLevels t) then [CallGenerateMipmap TEXTURE_2D] else [])"
    by (simp add: SetPixels_def Ptr_def Let_def gl_calls word_sless_alt)
  show ?thesis
    using made sp by (simp add: Begin_fields End_fields SetSmooth_texture)
qed

theorem SetPixels_regenerates_mipmaps_iff_witness:
  "(\<exists>s'. SetPixels texA 0 0 1 1 [1, 2, 3, 4] ctxB = Inr s' \<and>
      calls s' = calls ctxB @
        [CallTexSubImage2D TEXTURE_2D 0 0 0 1 1 RGBA UNSIGNED_BYTE [1, 2, 3, 4]]) \<and>
   (\<exists>s'. SetPixels texB 0 0 1 1 [1, 2, 3, 4] ctxB = Inr s' \<and>
      calls s' = calls ctxB @
        [CallTexSubImage2D TEXTURE_2D 0 0 0 1 1 RGBA UNSIGNED_BYTE [1, 2, 3, 4],
         CallGenerateMipmap TEXTURE_2D]) \<and>
   isl (SetPixels texB 0 0 0 0 [] ctxB) \<and>
   fst (NewTexture 2 2 3 True (replicate 16 0) ctxA) = Inr texB \<and> mipmapLevels texB = 3"
proof -
  let ?ra = "SetPixels texA 0 0 1 1 [1, 2, 3, 4] ctxB"
  let ?rb = "SetPixels texB 0 0 1 1 [1, 2, 3, 4] ctxB"
  let ?re = "SetPixels texB 0 0 0 0 [] ctxB"
  have A: "case ?ra of
      Inl e \<Rightarrow> int (length [1, 2, 3, 4 :: uint8]) \<noteq> sint (1 * 1 * 4 :: goint) \<or>
                [1, 2, 3, 4 :: uint8] = []
    | Inr s' \<Rightarrow>
        int (length [1, 2, 3, 4 :: uint8]) = sint (1 * 1 * 4 :: goint) \<and>
        [1, 2, 3, 4 :: uint8] \<noteq> [] \<and>
        calls s' =
          calls ctxB @
          CallTexSubImage2D TEXTURE_2D 0 (to_int32 0) (to_int32 0) (to_int32 1) (to_int32 1)
            RGBA UNSIGNED_BYTE [1, 2, 3, 4] #
          (if 0 < sint (mipmapLevels texA) then [CallGenerateMipmap TEXTURE_2D] else [])"
    using SetPixels_regenerates_mipmaps_iff
        [where t = texA and s = ctxB and pixels = "[1, 2, 3, 4]" and w = 1 and h = 1
           and x = 0 and y = 0]
    by blast
  have B: "case ?rb of
      Inl e \<Rightarrow> int (length [1, 2, 3, 4 :: uint8]) \<noteq> sint (1 * 1 * 4 :: goint) \<or>
                [1, 2, 3, 4 :: uint8] = []
    | Inr s' \<Rightarrow>
        int (length [1, 2, 3, 4 :: uint8]) = sint (1 * 1 * 4 :: goint) \<and>
        [1, 2, 3, 4 :: uint8] \<noteq> [] \<and>
        calls s' =
          calls ctxB @
          CallTexSubImage2D TEXTURE_2D 0 (to_int32 0) (to_int32 0) (to_int32 1) (to_int32 1)
            RGBA UNSIGNED_BYTE [1, 2, 3, 4] #
          (if 0 < sint (mipmapLevels texB) then [CallGenerateMipmap TEXTURE_2D] else [])"
    using SetPixels_regenerates_mipmaps_iff
        [where t = texB and s = ctxB and pixels = "[1, 2, 3, 4]" and w = 1 and h = 1
           and x = 0 and y = 0]
    by blast
  have E: "case ?re of
      Inl e \<Rightarrow> int (length ([] :: uint8 list)) \<noteq> sint (0 * 0 * 4 :: goint) \<or>
                ([] :: uint8 list) = []
    | Inr s' \<Rightarrow>
        int (length ([] :: uint8 list)) = sint (0 * 0 * 4 :: goint) \<and>
        ([] :: uint8 list) \<noteq> [] \<and>
        calls s' =
          calls ctxB @
          CallTexSubImage2D TEXTURE_2D 0 (to_int32 0) (to_int32 0) (to_int32 0) (to_int32 0)
            RGBA UNSIGNED_BYTE [] #
          (if 0 < sint (mipmapLevels texB) then [CallGenerateMipmap TEXTURE_2D] else [])"
    using SetPixels_regenerates_mipmaps_iff
        [where t = texB and s = ctxB and pixels = "[]" and w = 0 and h = 0 and x = 0 and y = 0]
    by blast
  have a: "\<exists>s'. ?ra = Inr s' \<and>
      calls s' = calls ctxB @
        [CallTexSubImage2D TEXTURE_2D 0 0 0 1 1 RGBA UNSIGNED_BYTE [1, 2, 3, 4]]"
  proof (cases ?ra)
    case (Inl e)
    with A show ?thesis by simp
  next
    case (Inr s')
    with A show ?thesis by (simp add: texA_eq to_int32_def)
  qed
  have b: "\<exists>s'. ?rb = Inr s' \<and>
      calls s' = calls ctxB @
        [CallTexSubImage2D TEXTURE_2D 0 0 0 1 1 RGBA UNSIGNED_BYTE [1, 2, 3, 4],
         CallGenerateMipmap TEXTURE_2D]"
  proof (cases ?rb)
    case (Inl e)
    with B show ?thesis by simp
  next
    case (Inr s')
    with B show ?thesis by (simp add: texB_eq to_int32_def)
  qed
  have e: "isl ?re" using E by (cases ?re) simp_all
  have m: "fst (NewTexture 2 2 3 True (replicate 16 0) ctxA) = Inr texB" "mipmapLevels texB = 3"
    using texB_made by (simp_all add: texB_eq)
  show ?thesis using a b e m by simp
qed

text \<open>
  C8: the calls of a construction that is given a non-empty pixel buffer, in order. With
  \<open>mipmapLevels > 0\<close>: \<open>TexStorage2D\<close> with that many levels, the upload of the initial
  pixels into level 0 by \<open>TexSubImage2D\<close>, and \<open>GenerateMipmap\<close>. Otherwise: one
  \<open>TexImage2D\<close> of level 0 with the initial pixels, and no \<open>GenerateMipmap\<close>. In both
  cases the border colour, the two filters and then both wrap parameters follow, and the
  new texture's wrap mode is clamp-to-border when construction returns. (With an empty
  buffer nothing is constructed: \<open>gl.Ptr\<close> panics before the upload, after the storage
  allocation when \<open>mipmapLevels > 0\<close>, and only the binding is restored.)
\<close>

theorem NewTexture_storage_upload_and_wrap:
  "(pixels \<noteq> [] \<longrightarrow>
      calls (snd (NewTexture w h levels sm pixels s)) =
        calls s @
        [CallGenTextures (next_name s), CallBindTexture TEXTURE_2D (next_name s)] @
        (if 0 < sint levels
         then [CallTexStorage2D TEXTURE_2D (to_int32 levels) RGBA8 (to_int32 w) (to_int32 h),
               CallTexSubImage2D TEXTURE_2D 0 0 0 (to_int32 w) (to_int32 h) RGBA UNSIGNED_BYTE
                 pixels,
               CallGenerateMipmap TEXTURE_2D]
         else [CallTexImage2D TEXTURE_2D 0 (ucast RGBA) (to_int32 w) (to_int32 h) 0 RGBA
                 UNSIGNED_BYTE pixels]) @
        [CallTexParameterfv TEXTURE_2D TEXTURE_BORDER_COLOR [0, 0, 0, 0],
         CallTexParameteri TEXTURE_2D TEXTURE_MIN_FILTER
           (if sm then (if 0 < sint levels then LINEAR_MIPMAP_LINEAR else LINEAR)
            else (if 0 < sint levels then LINEAR_MIPMAP_NEAREST else NEAREST)),
         CallTexParameteri TEXTURE_2D TEXTURE_MAG_FILTER (if sm then LINEAR else NEAREST),
         CallTexParameteri TEXTURE_2D TEXTURE_WRAP_S CLAMP_TO_BORDER,
         CallTexParameteri TEXTURE_2D TEXTURE_WRAP_T CLAMP_TO_BORDER,
         CallSetFinalizer (next_name s),
         CallBindTexture TEXTURE_2D (slots s TEXTURE_BINDING_2D)] \<and>
      (\<exists>t. fst (NewTexture w h levels sm pixels s) = Inr t \<and> ID t = next_name s \<and>
           width t = w \<and> height t = h \<and> mipmapLevels t = levels) \<and>
      params (snd (NewTexture w h levels sm pixels s)) (next_name s, TEXTURE_WRAP_S) =
        Some CLAMP_TO_BORDER \<and>
      params (snd (NewTexture w h levels sm pixels s)) (next_name s, TEXTURE_WRAP_T) =
        Some CLAMP_TO_BORDER) \<and>
   (pixels = [] \<longrightarrow>
      fst (NewTexture w h levels sm pixels s) =
        Inl (PanicMsg ''reflect: slice index out of range'') \<and>
      calls (snd (NewTexture w h levels sm pixels s)) =
        calls s @
        [CallGenTextures (next_name s), CallBindTexture TEXTURE_2D (next_name s)] @
        (if 0 < sint levels
         then [CallTexStorage2D TEXTURE_2D (to_int32 levels) RGBA8 (to_int32 w) (to_int32 h)]
         else []) @
        [CallBindTexture TEXTURE_2D (slots s TEXTURE_BINDING_2D)])"
proof (cases "pixels = []")
  case True
  then show ?thesis by (simp add: NewTexture_panic NewTexture_panic_calls)
next
  case False
  then show ?thesis
    by (simp add: NewTexture_calls NewTexture_params NewTexture_texture ID_def)
qed

theorem NewTexture_storage_upload_and_wrap_witness:
  "calls ctxA =
     [CallGenTextures 1, CallBindTexture TEXTURE_2D 1,
      CallTexImage2D TEXTURE_2D 0 (ucast RGBA) 4 4 0 RGBA UNSIGNED_BYTE (replicate 64 0),
      CallTexParameterfv TEXTURE_2D TEXTURE_BORDER_COLOR [0, 0, 0, 0],
      CallTexParameteri TEXTURE_2D TEXTURE_MIN_FILTER NEAREST,
      CallTexParameteri TEXTURE_2D TEXTURE_MAG_FILTER NEAREST,
      CallTexParameteri TEXTURE_2D TEXTURE_WRAP_S CLAMP_TO_BORDER,
      CallTexParameteri TEXTURE_2D TEXTURE_WRAP_T CLAMP_TO_BORDER,
      CallSetFinalizer 1, CallBindTexture TEXTURE_2D 0] \<and>
   params ctxA (1, TEXTURE_WRAP_S) = Some CLAMP_TO_BORDER \<and>
   params ctxA (1, TEXTURE_WRAP_T) = Some CLAMP_TO_BORDER \<and>
   fst (NewTexture 2 2 3 True [] ctx0) = Inl (PanicMsg ''reflect: slice index out of range'') \<and>
   calls (snd (NewTexture 2 2 3 True [] ctx0)) =
     [CallGenTextures 1, CallBindTexture TEXTURE_2D 1,
      CallTexStorage2D TEXTURE_2D 3 RGBA8 2 2, CallBindTexture TEXTURE_2D 0]"
  using NewTexture_storage_upload_and_wrap [of "replicate 64 0" 4 4 0 False ctx0]
    NewTexture_storage_upload_and_wrap [of "[]" 2 2 3 True ctx0]
  by (simp add: ctxA_def ctx0_def to_int32_def)

text \<open>
  C10 as stated fails: the claim is that every call of \<open>Pixels\<close> whose rectangle is not
  inside the image panics. On the 4 by 4 texture, \<open>Pixels(-1, 1, 1, 1)\<close> slices
  \<open>pixels[12:16]\<close> and returns the last pixel of row 0, and \<open>Pixels(3, 0, 2, 1)\<close>,
  with \<open>x + w = 5 > 4\<close>, slices \<open>pixels[12:20]\<close> and returns the last pixel of row 0
  followed by the first of row 1.
\<close>

theorem Pixels_outside_rectangle_returns:
  "fst (Pixels texA (- 1) 1 1 1 ctxR) = Inr [12, 13, 14, 15] \<and>
   sint (- 1 :: goint) < 0 \<and>
   fst (Pixels texA 3 0 2 1 ctxR) = Inr [12, 13, 14, 15, 16, 17, 18, 19] \<and>
   sint (width texA) < sint (3 + 2 :: goint)"
  by code_simp

text \<open>
  C10 as amended: \<open>Pixels\<close> does not validate the rectangle. The call panics exactly
  when the read-back buffer cannot be made or handed to the driver (its length
  \<open>width*height*4\<close> is negative, beyond the allocation limit, or zero, where \<open>gl.Ptr\<close>
  panics on the empty buffer), or the result buffer cannot be made (\<open>w*h*4\<close> is negative
  or beyond the limit), or, in some round \<open>0 \<le> i < h\<close> of the loop, a slice expression
  falls outside its buffer; in every other case, the rectangle inside the image or not,
  it returns a buffer of \<open>w*h*4\<close> bytes.
\<close>

theorem Pixels_panics_iff_slices_out_of_bounds:
  "(isl (fst (Pixels t x y w h s)) \<longleftrightarrow>
      width t * height t * 4 <s 0 \<or> maxAlloc <s width t * height t * 4 \<or>
      width t * height t * 4 = 0 \<or>
      w * h * 4 <s 0 \<or> maxAlloc <s w * h * 4 \<or>
      \<not> rows_in_bounds t x y w h) \<and>
   (case fst (Pixels t x y w h s) of
      Inl e \<Rightarrow> True
    | Inr sub \<Rightarrow> int (length sub) = sint (w * h * 4))"
proof (cases "width t * height t * 4 <s 0 \<or> maxAlloc <s width t * height t * 4")
  case True
  then show ?thesis by (auto simp add: Pixels_def make_bytes_def)
next
  case f1: False
  let ?buf = "replicate (nat (sint (width t * height t * 4))) (0 :: uint8)"
  have mb1: "make_bytes (width t * height t * 4) = Inr ?buf"
    using f1 by (simp only: make_bytes_def if_False)
  show ?thesis
  proof (cases "width t * height t * 4 = 0")
    case True
    then have "?buf = []" by simp
    then have "fst (Pixels t x y w h s) = Inl (PanicMsg ''reflect: slice index out of range'')"
      by (simp add: Pixels_def mb1 Ptr_def)
    then show ?thesis using True by simp
  next
    case f0: False
    have "0 \<le> sint (width t * height t * 4)" using f1 by (simp add: word_sless_alt)
    moreover have "sint (width t * height t * 4) \<noteq> 0" using f0 by (simp add: signed_eq_0_iff)
    ultimately have "0 < nat (sint (width t * height t * 4))" by simp
    then have ptr: "Ptr ?buf = Inr ?buf" by (simp add: Ptr_def)
    show ?thesis
    proof (cases "w * h * 4 <s 0 \<or> maxAlloc <s w * h * 4")
      case True
      then have "make_bytes (w * h * 4) = Inl MakesliceLenOutOfRange"
        by (simp only: make_bytes_def if_True)
      then have "fst (Pixels t x y w h s) = Inl MakesliceLenOutOfRange"
        by (simp add: Pixels_def mb1 ptr split_def Let_def)
      then show ?thesis using True by auto
    next
      case f2: False
      let ?pixels = "fst (GetTexImage TEXTURE_2D 0 RGBA UNSIGNED_BYTE ?buf s)"
      let ?sub = "replicate (nat (sint (w * h * 4))) (0 :: uint8)"
      have mb2: "make_bytes (w * h * 4) = Inr ?sub"
        using f2 by (simp only: make_bytes_def if_False)
      have P: "fst (Pixels t x y w h s) = Pixels_loop t x y w h ?pixels 0 ?sub"
        by (simp add: Pixels_def mb1 mb2 ptr split_def Let_def)
      have lp: "length ?pixels = length ?buf" by (rule length_GetTexImage)
      have "isl (Pixels_loop t x y w h ?pixels 0 ?sub) \<longleftrightarrow>
              \<not> list_all (\<lambda>k. slice_ok ?pixels ((of_nat k + y) * width t * 4 + x * 4)
                           ((of_nat k + y) * width t * 4 + (x + w) * 4) \<and>
                        slice_ok ?sub (of_nat k * w * 4) ((of_nat k + 1) * w * 4))
                  [nat (sint (0 :: goint))..<nat (sint h)]"
        by (rule Pixels_loop_panics_iff) simp
      also have "\<dots> \<longleftrightarrow> \<not> rows_in_bounds t x y w h"
        unfolding rows_in_bounds_def row_in_bounds_def slice_ok_length [OF lp] by simp
      finally have iff: "isl (fst (Pixels t x y w h s)) \<longleftrightarrow> \<not> rows_in_bounds t x y w h"
        by (simp only: P)
      have nn: "0 \<le> sint (w * h * 4)" using f2 by (simp add: word_sless_alt)
      have len: "int (length sub) = sint (w * h * 4)"
        if "fst (Pixels t x y w h s) = Inr sub" for sub
      proof -
        have "length sub = length ?sub"
          using that unfolding P by (rule Pixels_loop_length)
        then show ?thesis using nn by simp
      qed
      show ?thesis using iff f0 f1 f2 len by (simp split: sum.splits)
    qed
  qed
qed

theorem Pixels_panics_iff_slices_out_of_bounds_witness:
  "isl (fst (Pixels texA 3 3 2 1 ctxR)) \<and> \<not> rows_in_bounds texA 3 3 2 1 \<and>
   \<not> isl (fst (Pixels texA (- 1) 1 1 1 ctxR)) \<and> rows_in_bounds texA (- 1) 1 1 1 \<and>
   isl (fst (Pixels texE 0 0 0 0 ctxE)) \<and> rows_in_bounds texE 0 0 0 0 \<and>
   width texE * height texE * 4 = 0 \<and>
   NewTexture 0 0 0 False [0] ctxB = (Inr texE, ctxE)"
proof -
  have a: "\<not> rows_in_bounds texA 3 3 2 1" by code_simp
  have b: "rows_in_bounds texA (- 1) 1 1 1" by code_simp
  have e: "rows_in_bounds texE 0 0 0 0" by code_simp
  have c: "\<not> (width texA * height texA * 4 <s 0)"
    "\<not> (maxAlloc <s width texA * height texA * 4)"
    "width texA * height texA * 4 \<noteq> 0"
    "\<not> (2 * 1 * 4 <s (0 :: goint))" "\<not> (maxAlloc <s 2 * 1 * 4)"
    "\<not> (1 * 1 * 4 <s (0 :: goint))" "\<not> (maxAlloc <s 1 * 1 * 4)"
    "width texE * height texE * 4 = 0"
    by code_simp+
  show ?thesis
    using Pixels_panics_iff_slices_out_of_bounds [of texA 3 3 2 1 ctxR]
      Pixels_panics_iff_slices_out_of_bounds [of texA "- 1" 1 1 1 ctxR]
      Pixels_panics_iff_slices_out_of_bounds [of texE 0 0 0 0 ctxE] a b e c texE_made
    by simp
qed

end
